theory Spec2Isabelle
  imports Complex_Main "HOL-Library.Sublist" "HOL-Library.List_Lexorder" "HOL-Library.Char_ord"
begin

section \<open>Values, errors and tables\<close>

text \<open>
  A spreadsheet entry is a number, a string or a missing entry (the float NaN of the
  data-frame library). Floats are idealised as reals; a \<open>string\<close> is the byte sequence
  of the Python string, and the model reads only its ASCII characters.
\<close>

datatype cell = Num real | Text string | Missing

datatype error = ReadError | KeyError string | TypeError | ValueError | IndexError

text \<open>
  A data frame: the column labels in file order and the rows, each row holding one entry
  per column. Several columns may carry the same label.
\<close>

record table =
  columns :: "string list"
  rows :: "cell list list"

section \<open>Python string operations used by the loader\<close>

text \<open>\<open>s.split(sep)\<close> for a one-character separator: never empty, \<open>''.split('-') = ['']\<close>.\<close>

fun split_on :: "char \<Rightarrow> string \<Rightarrow> string list" where
  "split_on sep [] = [[]]"
| "split_on sep (c # cs) =
     (if c = sep then [] # split_on sep cs
      else (case split_on sep cs of
              p # ps \<Rightarrow> (c # p) # ps
            | [] \<Rightarrow> [[c]]))"

definition is_digit :: "char \<Rightarrow> bool" where
  "is_digit c = (c \<in> set ''0123456789'')"

text \<open>\<open>s.isdigit()\<close>: at least one character, and every character a digit.\<close>

definition isdigit :: "string \<Rightarrow> bool" where
  "isdigit s = (s \<noteq> [] \<and> list_all is_digit s)"

definition startswith :: "string \<Rightarrow> string \<Rightarrow> bool" where
  "startswith s p = (take (length p) s = p)"

text \<open>The ASCII characters for which \<open>str.isspace\<close> holds: tab to carriage return,
  the four separators 28 to 31, and the space.\<close>

definition is_space :: "char \<Rightarrow> bool" where
  "is_space c = ((of_char c :: nat) \<in> {9, 10, 11, 12, 13, 28, 29, 30, 31, 32})"

definition strip :: "string \<Rightarrow> string" where
  "strip s = rev (dropWhile is_space (rev (dropWhile is_space s)))"

section \<open>Loader\<close>

text \<open>
  What \<open>pd.read_excel(file, skiprows=16)\<close> makes of an uploaded file: it raises, or it
  yields a frame whose labels are taken here in their \<open>str\<close> rendering.
\<close>

datatype upload = Unreadable | Frame table

fun read_excel :: "upload \<Rightarrow> nat \<Rightarrow> error + table" where
  "read_excel Unreadable skiprows = Inl ReadError"
| "read_excel (Frame df) skiprows = Inr df"

text \<open>The condition of the list comprehension in \<open>load_population_data\<close>.\<close>

definition is_age_col :: "string \<Rightarrow> bool" where
  "is_age_col c = (isdigit (hd (split_on (CHR ''-'') c)) \<or> startswith c ''100'')"

definition load_population_data :: "upload \<Rightarrow> nat \<Rightarrow> error + (table \<times> string list)" where
  "load_population_data file_path header_row =
     (case read_excel file_path header_row of
        Inl e \<Rightarrow> Inl e
      | Inr df0 \<Rightarrow>
          let df = df0\<lparr>columns := map strip (columns df0)\<rparr>;
              age_cols = filter is_age_col (columns df)
          in Inr (df, age_cols))"




section \<open>Frames: columns, rows, comparisons\<close>

definition REGION :: string where
  "REGION = ''Region, subregion, country or area *''"

definition YEAR :: string where
  "YEAR = ''Year''"

text \<open>The positions at which a label occurs among the columns.\<close>

definition positions :: "string list \<Rightarrow> string \<Rightarrow> nat list" where
  "positions labels name = filter (\<lambda>i. labels ! i = name) [0..<length labels]"

text \<open>A row shorter than the header is padded with missing entries, as the reader does.\<close>

definition cell_at :: "cell list \<Rightarrow> nat \<Rightarrow> cell" where
  "cell_at r i = (if i < length r then r ! i else Missing)"

text \<open>
  \<open>df[name]\<close> for one label: \<open>KeyError\<close> when no column carries it. The identifying
  labels are taken to occur at most once; where one is repeated the model reads its first
  column.
\<close>

definition get_column :: "table \<Rightarrow> string \<Rightarrow> error + cell list" where
  "get_column df name =
     (case positions (columns df) name of
        [] \<Rightarrow> Inl (KeyError name)
      | i # _ \<Rightarrow> Inr (map (\<lambda>r. cell_at r i) (rows df)))"

text \<open>
  \<open>row[labels]\<close> for a list of labels: \<open>KeyError\<close> when some label is no column;
  otherwise, label by label, the entries of every column that carries the label.
\<close>

definition select_labels :: "table \<Rightarrow> cell list \<Rightarrow> string list \<Rightarrow> error + cell list" where
  "select_labels df r labels =
     (case filter (\<lambda>l. l \<notin> set (columns df)) labels of
        l # _ \<Rightarrow> Inl (KeyError l)
      | [] \<Rightarrow> Inr (concat (map (\<lambda>l. map (cell_at r) (positions (columns df) l)) labels)))"

text \<open>
  Python's \<open>==\<close> and \<open><\<close> on entries. A missing entry (NaN) equals nothing, itself
  included, and is neither below nor above a number; a string and a number are unequal,
  and ordering them raises \<open>TypeError\<close>.
\<close>

fun py_eq :: "cell \<Rightarrow> cell \<Rightarrow> bool" where
  "py_eq (Num a) (Num b) = (a = b)"
| "py_eq (Text s) (Text t) = (s = t)"
| "py_eq _ _ = False"

fun py_lt :: "cell \<Rightarrow> cell \<Rightarrow> error + bool" where
  "py_lt (Num a) (Num b) = Inr (a < b)"
| "py_lt (Text s) (Text t) = Inr (s < t)"
| "py_lt (Text s) (Num b) = Inl TypeError"
| "py_lt (Text s) Missing = Inl TypeError"
| "py_lt (Num a) (Text t) = Inl TypeError"
| "py_lt Missing (Text t) = Inl TypeError"
| "py_lt (Num a) Missing = Inr False"
| "py_lt Missing (Num b) = Inr False"
| "py_lt Missing Missing = Inr False"

text \<open>
  \<open>sorted(xs)\<close>: every element is inserted before the first element it is below.
  On strings alone or numbers alone this is the ascending arrangement, whatever the
  order in which Python visits the elements; on a list holding a missing entry Python's
  result depends on its algorithm, and no such list is sorted by this program.
\<close>

fun py_insort :: "cell \<Rightarrow> cell list \<Rightarrow> error + cell list" where
  "py_insort x [] = Inr [x]"
| "py_insort x (y # ys) =
     (case py_lt x y of
        Inl e \<Rightarrow> Inl e
      | Inr True \<Rightarrow> Inr (x # y # ys)
      | Inr False \<Rightarrow> (case py_insort x ys of Inl e \<Rightarrow> Inl e | Inr zs \<Rightarrow> Inr (y # zs)))"

fun py_sorted :: "cell list \<Rightarrow> error + cell list" where
  "py_sorted [] = Inr []"
| "py_sorted (x # xs) =
     (case py_sorted xs of Inl e \<Rightarrow> Inl e | Inr ys \<Rightarrow> py_insort x ys)"

text \<open>
  \<open>list(set(xs) & set(ys))\<close>: the distinct entries of \<open>xs\<close> that equal an entry of
  \<open>ys\<close>. Python fixes no order for them; the model lists them as \<open>xs\<close> does. Each
  missing entry is its own NaN and equals no other, so none is common to both.
\<close>

definition common :: "cell list \<Rightarrow> cell list \<Rightarrow> cell list" where
  "common xs ys = filter (\<lambda>x. x \<noteq> Missing \<and> x \<in> set ys) (remdups xs)"

text \<open>The keyspace intersection of the upload step, for countries and for years.\<close>

definition common_countries :: "table \<Rightarrow> table \<Rightarrow> error + cell list" where
  "common_countries male female =
     (case get_column male REGION of
        Inl e \<Rightarrow> Inl e
      | Inr male_countries \<Rightarrow>
          (case get_column female REGION of
             Inl e \<Rightarrow> Inl e
           | Inr female_countries \<Rightarrow> py_sorted (common male_countries female_countries)))"

definition common_years :: "table \<Rightarrow> table \<Rightarrow> error + cell list" where
  "common_years male female =
     (case get_column male YEAR of
        Inl e \<Rightarrow> Inl e
      | Inr years_male \<Rightarrow>
          (case get_column female YEAR of
             Inl e \<Rightarrow> Inl e
           | Inr years_female \<Rightarrow> py_sorted (common years_male years_female)))"


text \<open>
  The rows a selection resolves to: the rows whose country and year both equal the
  selection (one mask, the conjunction of the two comparisons).
\<close>

definition select_rows :: "table \<Rightarrow> cell \<Rightarrow> cell \<Rightarrow> error + cell list list" where
  "select_rows df country year =
     (case get_column df REGION of
        Inl e \<Rightarrow> Inl e
      | Inr cs \<Rightarrow>
          (case get_column df YEAR of
             Inl e \<Rightarrow> Inl e
           | Inr ys \<Rightarrow>
               Inr (map fst (filter (\<lambda>(r, c, y). py_eq c country \<and> py_eq y year)
                                    (zip (rows df) (zip cs ys))))))"

section \<open>Arithmetic on count vectors\<close>

text \<open>
  A float of the count vectors: a real, or \<open>None\<close> for NaN. The operations below are
  those of a numeric array: NaN spreads through sums, minima and maxima, and every
  comparison with NaN is false.
\<close>

type_synonym float = "real option"

fun mapE :: "('a \<Rightarrow> error + 'b) \<Rightarrow> 'a list \<Rightarrow> error + 'b list" where
  "mapE f [] = Inr []"
| "mapE f (x # xs) =
     (case f x of
        Inl e \<Rightarrow> Inl e
      | Inr y \<Rightarrow> (case mapE f xs of Inl e \<Rightarrow> Inl e | Inr ys \<Rightarrow> Inr (y # ys)))"

text \<open>\<open>-v / 1000\<close> and \<open>v / 1000\<close> on one entry; a string has neither.\<close>

fun neg_div_1000 :: "cell \<Rightarrow> error + float" where
  "neg_div_1000 (Num r) = Inr (Some (- r / 1000))"
| "neg_div_1000 Missing = Inr None"
| "neg_div_1000 (Text s) = Inl TypeError"

fun div_1000 :: "cell \<Rightarrow> error + float" where
  "div_1000 (Num r) = Inr (Some (r / 1000))"
| "div_1000 Missing = Inr None"
| "div_1000 (Text s) = Inl TypeError"

definition np_min :: "float list \<Rightarrow> error + float" where
  "np_min xs =
     (if xs = [] then Inl ValueError
      else if None \<in> set xs then Inr None
      else Inr (Some (Min (set (map the xs)))))"

definition np_max :: "float list \<Rightarrow> error + float" where
  "np_max xs =
     (if xs = [] then Inl ValueError
      else if None \<in> set xs then Inr None
      else Inr (Some (Max (set (map the xs)))))"

definition np_sum :: "float list \<Rightarrow> float" where
  "np_sum xs = (if None \<in> set xs then None else Some (sum_list (map the xs)))"

definition f_abs :: "float \<Rightarrow> float" where
  "f_abs x = map_option abs x"

definition f_neg :: "float \<Rightarrow> float" where
  "f_neg x = map_option uminus x"

definition f_mul :: "float \<Rightarrow> real \<Rightarrow> float" where
  "f_mul x k = map_option (\<lambda>v. v * k) x"

fun f_add :: "float \<Rightarrow> float \<Rightarrow> float" where
  "f_add (Some a) (Some b) = Some (a + b)"
| "f_add _ _ = None"

fun f_pos :: "float \<Rightarrow> bool" where
  "f_pos (Some a) = (a > 0)"
| "f_pos None = False"

text \<open>Python's \<open>max(a, b)\<close>: \<open>b\<close> if \<open>b > a\<close>, else \<open>a\<close>.\<close>

fun py_max :: "float \<Rightarrow> float \<Rightarrow> float" where
  "py_max (Some a) (Some b) = (if b > a then Some b else Some a)"
| "py_max a _ = a"

section \<open>Pyramid renderer\<close>

text \<open>
  The pieces of an f-string: literal text, a float in fixed notation with a number of
  decimals, an entry printed by \<open>str\<close>.
\<close>

datatype piece = Lit string | Fixed nat float | Shown cell

text \<open>
  A chart is the record of what the renderer asks of the plotting library: the bars
  (position and signed width), the labels written on bars, ticks, captions, the limits
  passed to \<open>set_xlim\<close> and the summary box. Colours, sizes, the legend, the grid and
  the tick labels of the x-axis, which depend on the positions the library picks, are
  left out.
\<close>

record chart =
  male_bars :: "(nat \<times> float) list"
  female_bars :: "(nat \<times> float) list"
  bar_labels :: "(float \<times> nat \<times> piece list) list"
  yticks :: "nat list"
  yticklabels :: "string list"
  xlabel :: string
  ylabel :: string
  title :: "piece list"
  xlim :: "real \<times> real"
  summary :: "piece list"

text \<open>
  \<open>ax.barh(y, width)\<close> broadcasts its two vectors: equal lengths pair up, a vector of
  length one is repeated, any other pair of lengths raises.
\<close>

definition barh :: "nat list \<Rightarrow> float list \<Rightarrow> error + (nat \<times> float) list" where
  "barh y width =
     (if length y = length width then Inr (zip y width)
      else if length width = 1 then Inr (map (\<lambda>p. (p, hd width)) y)
      else if length y = 1 then Inr (map (\<lambda>w. (hd y, w)) width)
      else Inl ValueError)"

text \<open>The body of the annotation loop for bar \<open>i\<close>; indexing past a vector raises.\<close>

definition bar_label_at ::
  "float list \<Rightarrow> float list \<Rightarrow> nat \<Rightarrow> error + (float \<times> nat \<times> piece list) list" where
  "bar_label_at male_values female_values i =
     (if i \<ge> length male_values then Inl IndexError
      else
        let male_val = f_abs (male_values ! i);
            m = (if f_pos male_val
                 then [(f_mul (male_values ! i) 0.5, i, [Fixed 1 male_val, Lit ''k''])]
                 else [])
        in if i \<ge> length female_values then Inl IndexError
           else
             let female_val = female_values ! i;
                 f = (if f_pos female_val
                      then [(f_mul (female_values ! i) 0.5, i, [Fixed 1 female_val, Lit ''k''])]
                      else [])
             in Inr (m @ f))"

definition set_xlim :: "float \<Rightarrow> float \<Rightarrow> error + (real \<times> real)" where
  "set_xlim left right =
     (case (left, right) of
        (Some l, Some r) \<Rightarrow> Inr (l, r)
      | _ \<Rightarrow> Inl ValueError)"

definition newline :: string where
  "newline = [CHR 0x0A]"

definition create_population_pyramid ::
  "cell list \<Rightarrow> cell list \<Rightarrow> string list \<Rightarrow> cell \<Rightarrow> cell \<Rightarrow> bool \<Rightarrow> error + chart" where
  "create_population_pyramid male_data female_data age_groups country year interactive =
     (let y_pos = [0..<length age_groups] in
      (case mapE neg_div_1000 male_data of Inl e \<Rightarrow> Inl e | Inr male_values \<Rightarrow>
      (case mapE div_1000 female_data of Inl e \<Rightarrow> Inl e | Inr female_values \<Rightarrow>
      (case barh y_pos male_values of Inl e \<Rightarrow> Inl e | Inr bars_male \<Rightarrow>
      (case barh y_pos female_values of Inl e \<Rightarrow> Inl e | Inr bars_female \<Rightarrow>
      (case (if interactive
             then mapE (bar_label_at male_values female_values)
                    [0..<min (length bars_male) (length bars_female)]
             else Inr []) of Inl e \<Rightarrow> Inl e | Inr texts \<Rightarrow>
      (case np_min male_values of Inl e \<Rightarrow> Inl e | Inr male_min \<Rightarrow>
      (case np_max female_values of Inl e \<Rightarrow> Inl e | Inr female_max \<Rightarrow>
      (let max_val = py_max (f_abs male_min) female_max in
      (case set_xlim (f_mul (f_neg max_val) 1.15) (f_mul max_val 1.15) of
         Inl e \<Rightarrow> Inl e
       | Inr limits \<Rightarrow>
          (let total_male = f_abs (np_sum male_values);
               total_female = np_sum female_values;
               total_pop = f_add total_male total_female
           in Inr \<lparr>male_bars = bars_male,
                   female_bars = bars_female,
                   bar_labels = concat texts,
                   yticks = y_pos,
                   yticklabels = age_groups,
                   xlabel = ''Population (thousands)'',
                   ylabel = ''Age Group'',
                   title = [Lit ''Population Pyramid: '', Shown country, Lit '' ('',
                            Shown year, Lit '')''],
                   xlim = limits,
                   summary = [Lit ''Total: '', Fixed 1 total_pop,
                              Lit (''k'' @ newline @ ''Male: ''), Fixed 1 total_male,
                              Lit (''k'' @ newline @ ''Female: ''), Fixed 1 total_female,
                              Lit ''million'']\<rparr>)))))))))))"

section \<open>Table formatter\<close>

text \<open>
  \<open>pd.to_numeric(v, errors='coerce')\<close> on one entry: a number stays, a missing entry
  stays NaN, a string becomes the number it spells or NaN. Which strings spell a number is
  the library's rule and a parameter \<open>spell\<close> of the model. \<open>fillna(0)\<close> then replaces
  NaN by zero.
\<close>

fun to_numeric :: "(string \<Rightarrow> real option) \<Rightarrow> cell \<Rightarrow> float" where
  "to_numeric spell (Num r) = Some r"
| "to_numeric spell (Text s) = spell s"
| "to_numeric spell Missing = None"

fun fillna :: "real \<Rightarrow> float \<Rightarrow> real" where
  "fillna d None = d"
| "fillna d (Some r) = r"

text \<open>Elementwise sum of two arrays, with the same broadcasting rule as above.\<close>

definition np_add :: "real list \<Rightarrow> real list \<Rightarrow> error + real list" where
  "np_add xs ys =
     (if length xs = length ys then Inr (map (\<lambda>(a, b). a + b) (zip xs ys))
      else if length ys = 1 then Inr (map (\<lambda>a. a + hd ys) xs)
      else if length xs = 1 then Inr (map (\<lambda>b. hd xs + b) ys)
      else Inl ValueError)"

record data_table =
  age_group :: "string list"
  male :: "real list"
  female :: "real list"
  total :: "real list"

text \<open>The frame constructor refuses columns of different lengths.\<close>

definition create_data_table ::
  "(string \<Rightarrow> real option) \<Rightarrow> cell list \<Rightarrow> cell list \<Rightarrow> string list \<Rightarrow> error + data_table" where
  "create_data_table spell male_data female_data age_groups =
     (let male_vals = map (fillna 0 \<circ> to_numeric spell) male_data;
          female_vals = map (fillna 0 \<circ> to_numeric spell) female_data
      in (case np_add male_vals female_vals of
            Inl e \<Rightarrow> Inl e
          | Inr totals \<Rightarrow>
              (if length male_vals = length age_groups \<and>
                  length female_vals = length age_groups \<and>
                  length totals = length age_groups
               then Inr \<lparr>age_group = age_groups, male = male_vals,
                         female = female_vals, total = totals\<rparr>
               else Inl ValueError)))"

text \<open>A reading of strings under which no string spells a number.\<close>

definition no_number :: "string \<Rightarrow> real option" where
  "no_number s = None"

section \<open>Session state and the page script\<close>

text \<open>One generated result: the dictionary appended to \<open>generated_pyramids\<close>.\<close>

record pyramid =
  fig :: chart
  country :: cell
  year :: cell
  table :: data_table

text \<open>What the page reports to the user, in the order reported.\<close>

datatype message =
    Success_loaded nat nat
  | Error_loading error
  | Warning_no_data cell cell
  | Success_generated nat

record session =
  male_df :: "table option"
  female_df :: "table option"
  age_cols :: "string list option"
  countries :: "cell list"
  years :: "cell list"
  generated_pyramids :: "pyramid list"
  pyramid_selections :: "(cell \<times> cell) list"
  messages :: "message list"

text \<open>The state the script initialises on the first run of a session.\<close>

definition initial_session :: session where
  "initial_session =
     \<lparr>male_df = None, female_df = None, age_cols = None, countries = [], years = [],
      generated_pyramids = [], pyramid_selections = [], messages = []\<rparr>"

definition report :: "message \<Rightarrow> session \<Rightarrow> session" where
  "report m st = st\<lparr>messages := messages st @ [m]\<rparr>"

text \<open>
  The upload step. The body of the \<open>try\<close> runs statement by statement; an exception
  leaves the assignments made before it in place and is reported by the handler.
\<close>

definition process_upload :: "upload option \<Rightarrow> upload option \<Rightarrow> session \<Rightarrow> session" where
  "process_upload male_file female_file st =
     (case (male_file, female_file) of
        (Some mf, Some ff) \<Rightarrow>
          (if male_df st = None \<or> female_df st = None
           then
             (case load_population_data mf 16 of
                Inl e \<Rightarrow> report (Error_loading e) st
              | Inr (mdf, male_age_cols) \<Rightarrow>
             (case load_population_data ff 16 of
                Inl e \<Rightarrow> report (Error_loading e) st
              | Inr (fdf, female_age_cols) \<Rightarrow>
             (let st1 = st\<lparr>male_df := Some mdf, female_df := Some fdf,
                           age_cols := Some male_age_cols\<rparr>
              in
             (case common_countries mdf fdf of
                Inl e \<Rightarrow> report (Error_loading e) st1
              | Inr cc \<Rightarrow>
             (case common_years mdf fdf of
                Inl e \<Rightarrow> report (Error_loading e) st1
              | Inr cy \<Rightarrow>
                  report (Success_loaded (length cc) (length cy))
                    (st1\<lparr>countries := cc, years := cy\<rparr>))))))
           else st)
      | _ \<Rightarrow> st)"

text \<open>The guard of the configuration and generation sections.\<close>

definition configuration_shown :: "session \<Rightarrow> bool" where
  "configuration_shown st = (male_df st \<noteq> None \<and> female_df st \<noteq> None)"

text \<open>
  The body of the generation loop for one selection. It raises, leaving the state as it
  was, or returns the state with one result appended or one warning reported.
\<close>

definition process_selection ::
  "(string \<Rightarrow> real option) \<Rightarrow> bool \<Rightarrow> session \<Rightarrow> cell \<times> cell \<Rightarrow> error + session" where
  "process_selection spell show_values st selection =
     (let c = fst selection; y = snd selection in
      (case male_df st of None \<Rightarrow> Inl TypeError | Some mdf \<Rightarrow>
      (case select_rows mdf c y of Inl e \<Rightarrow> Inl e | Inr male_row \<Rightarrow>
      (case female_df st of None \<Rightarrow> Inl TypeError | Some fdf \<Rightarrow>
      (case select_rows fdf c y of Inl e \<Rightarrow> Inl e | Inr female_row \<Rightarrow>
      (if male_row \<noteq> [] \<and> female_row \<noteq> []
       then
         (case age_cols st of None \<Rightarrow> Inl (KeyError ''None'') | Some ac \<Rightarrow>
         (case select_labels mdf (hd male_row) ac of Inl e \<Rightarrow> Inl e | Inr male_data \<Rightarrow>
         (case select_labels fdf (hd female_row) ac of Inl e \<Rightarrow> Inl e | Inr female_data \<Rightarrow>
         (case create_population_pyramid male_data female_data ac c y show_values of
            Inl e \<Rightarrow> Inl e
          | Inr f \<Rightarrow>
         (case create_data_table spell male_data female_data ac of
            Inl e \<Rightarrow> Inl e
          | Inr t \<Rightarrow>
              Inr (st\<lparr>generated_pyramids :=
                         generated_pyramids st @ [\<lparr>fig = f, country = c, year = y, table = t\<rparr>]\<rparr>))))))
       else Inr (report (Warning_no_data c y) st)))))))"

text \<open>The loop over the selections: it stops at the first exception.\<close>

fun generate_loop ::
  "(string \<Rightarrow> real option) \<Rightarrow> bool \<Rightarrow> session \<Rightarrow> (cell \<times> cell) list \<Rightarrow> session \<times> error option" where
  "generate_loop spell show_values st [] = (st, None)"
| "generate_loop spell show_values st (s # ss) =
     (case process_selection spell show_values st s of
        Inl e \<Rightarrow> (st, Some e)
      | Inr st' \<Rightarrow> generate_loop spell show_values st' ss)"

text \<open>Pressing the generate button.\<close>

definition generate_pyramids ::
  "(string \<Rightarrow> real option) \<Rightarrow> bool \<Rightarrow> session \<Rightarrow> session \<times> error option" where
  "generate_pyramids spell show_values st =
     (case generate_loop spell show_values (st\<lparr>generated_pyramids := []\<rparr>)
             (pyramid_selections st) of
        (st', Some e) \<Rightarrow> (st', Some e)
      | (st', None) \<Rightarrow>
          (report (Success_generated (length (generated_pyramids st'))) st', None))"

text \<open>
  Two sessions agree on what the generation loop reads and on the results so far; they
  may differ in what has been reported.
\<close>

definition same_data :: "session \<Rightarrow> session \<Rightarrow> bool" where
  "same_data st st' =
     (male_df st' = male_df st \<and> female_df st' = female_df st \<and>
      age_cols st' = age_cols st \<and> generated_pyramids st' = generated_pyramids st)"

section \<open>Two small tables\<close>

text \<open>
  A male and a female table in the layout of the source spreadsheets, used to run the
  model: they share the countries B and C and the years 2020 and 2021, and name their
  age bands differently.
\<close>

definition male_example :: table where
  "male_example =
     \<lparr>columns = [REGION, YEAR, ''0-4'', ''5-9''],
      rows = [[Text ''B'', Num 2021, Num 10, Num 20],
              [Text ''A'', Num 2020, Num 1, Num 2],
              [Text ''C'', Num 2020, Num 3, Num 4]]\<rparr>"

definition female_example :: table where
  "female_example =
     \<lparr>columns = [REGION, YEAR, ''0-4'', ''5-9'', ''10-14''],
      rows = [[Text ''C'', Num 2021, Num 6, Num 7, Num 8],
              [Text ''B'', Num 2021, Num 5, Num 25, Num 30],
              [Text ''D'', Num 2020, Num 1, Num 1, Num 1],
              [Text ''B'', Num 2019, Num 2, Num 2, Num 2]]\<rparr>"

text \<open>The session after both example files have been uploaded to a fresh page.\<close>

definition loaded_example :: session where
  "loaded_example =
     process_upload (Some (Frame male_example)) (Some (Frame female_example)) initial_session"

text \<open>
  A table without any age-band column, and the session after it has been uploaded as the
  male and as the female file and one of its rows has been selected.
\<close>

definition bandless_example :: table where
  "bandless_example = \<lparr>columns = [REGION, YEAR], rows = [[Text ''A'', Num 2020]]\<rparr>"

definition bandless_session :: session where
  "bandless_session =
     (process_upload (Some (Frame bandless_example)) (Some (Frame bandless_example))
        initial_session)\<lparr>pyramid_selections := [(Text ''A'', Num 2020)]\<rparr>"

section \<open>Properties of the loader\<close>








section \<open>Properties of the renderer\<close>

lemma mapE_neg_div_Num:
  "mapE neg_div_1000 (map Num ms) = Inr (map (\<lambda>r. Some (- r / 1000)) ms)"
  by (induction ms) auto

lemma mapE_div_Num:
  "mapE div_1000 (map Num fs) = Inr (map (\<lambda>r. Some (r / 1000)) fs)"
  by (induction fs) auto


lemma np_sum_Some: "np_sum (map (\<lambda>r. Some (g r)) rs) = Some (sum_list (map g rs))"
  by (simp add: np_sum_def image_iff comp_def)

lemma sum_list_neg_div: "sum_list (map (\<lambda>r. - r / 1000) (ms :: real list)) = - sum_list ms / 1000"
  by (induction ms) (auto simp: field_simps)

lemma sum_list_div: "sum_list (map (\<lambda>r. r / 1000) (fs :: real list)) = sum_list fs / 1000"
  by (induction fs) (auto simp: field_simps)



lemma py_max_Some: "py_max (Some a) (Some b) = Some (max a b)"
  by (simp add: max_def)

text \<open>What a successful call of the renderer has computed, step by step.\<close>

lemma render_steps:
  assumes "create_population_pyramid md fd ag c y i = Inr ch"
  shows "\<exists>mv fv mn mx lim.
           mapE neg_div_1000 md = Inr mv \<and> mapE div_1000 fd = Inr fv \<and>
           barh [0..<length ag] mv = Inr (male_bars ch) \<and>
           barh [0..<length ag] fv = Inr (female_bars ch) \<and>
           np_min mv = Inr mn \<and> np_max fv = Inr mx \<and>
           set_xlim (f_mul (f_neg (py_max (f_abs mn) mx)) 1.15)
                    (f_mul (py_max (f_abs mn) mx) 1.15) = Inr lim \<and>
           xlim ch = lim \<and>
           yticklabels ch = ag \<and>
           summary ch =
             [Lit ''Total: '', Fixed 1 (f_add (f_abs (np_sum mv)) (np_sum fv)),
              Lit (''k'' @ newline @ ''Male: ''), Fixed 1 (f_abs (np_sum mv)),
              Lit (''k'' @ newline @ ''Female: ''), Fixed 1 (np_sum fv),
              Lit ''million'']"
  using assms
  unfolding create_population_pyramid_def Let_def
  by (auto split: sum.splits)

text \<open>
  What the renderer plots for numeric counts, one per age band: each count divided by
  1000, the male ones negated.
\<close>

lemma render_bar_extents:
  assumes "create_population_pyramid (map Num ms) (map Num fs) ag c y i = Inr ch"
    and "length ms = length ag" and "length fs = length ag"
  shows "map snd (male_bars ch) = map (\<lambda>m. Some (- m / 1000)) ms"
    and "map snd (female_bars ch) = map (\<lambda>f. Some (f / 1000)) fs"
proof -
  from render_steps [OF assms(1)] obtain mv fv where
    mv: "mapE neg_div_1000 (map Num ms) = Inr mv" and
    fv: "mapE div_1000 (map Num fs) = Inr fv" and
    bm: "barh [0..<length ag] mv = Inr (male_bars ch)" and
    bf: "barh [0..<length ag] fv = Inr (female_bars ch)"
    by blast
  from mv have mv': "mv = map (\<lambda>m. Some (- m / 1000)) ms"
    by (simp add: mapE_neg_div_Num)
  from fv have fv': "fv = map (\<lambda>f. Some (f / 1000)) fs"
    by (simp add: mapE_div_Num)
  from bm assms(2) have "male_bars ch = zip [0..<length ag] mv"
    by (simp add: barh_def mv')
  then show "map snd (male_bars ch) = map (\<lambda>m. Some (- m / 1000)) ms"
    using assms(2) by (simp add: mv')
  from bf assms(3) have "female_bars ch = zip [0..<length ag] fv"
    by (simp add: barh_def fv')
  then show "map snd (female_bars ch) = map (\<lambda>f. Some (f / 1000)) fs"
    using assms(3) by (simp add: fv')
qed

text \<open>
  C1. The claim: the plotted bar extents are the ingested counts unchanged, so that male
  counts 10, 20 and female counts 5, 25 give the extents -10, -20 and 5, 25. The renderer
  divides every count by 1000 before plotting: on these counts the male bars extend to
  -1/100 and -1/50, the female bars to 1/200 and 1/40, and the axis limit is 23/800, not
  23.
\<close>

theorem render_scales_counts:
  "\<exists>ch. create_population_pyramid [Num 10, Num 20] [Num 5, Num 25] [''0-4'', ''5-9'']
           c y False = Inr ch \<and>
        map snd (male_bars ch) = [Some (- (1 / 100)), Some (- (1 / 50))] \<and>
        map snd (female_bars ch) = [Some (1 / 200), Some (1 / 40)] \<and>
        xlim ch = (- (23 / 800), 23 / 800)"
  by (simp add: create_population_pyramid_def Let_def barh_def np_min_def np_max_def
      np_sum_def f_abs_def f_neg_def f_mul_def set_xlim_def)

text \<open>
  C2. In the summary box of every chart the renderer returns, the three figures are
  computed from the same plotted values (the counts divided by 1000): the male total is
  the absolute value of their sum over the male side, the female total the sum over the
  female side, the overall total the sum of the two. The overall and the male figure are
  printed with the suffix \<open>k\<close>, the female figure with the suffix \<open>million\<close>, its
  magnitude unchanged.
\<close>

theorem summary_units:
  assumes "create_population_pyramid md fd ag c y i = Inr ch"
  shows "(\<exists>mv fv. mapE neg_div_1000 md = Inr mv \<and> mapE div_1000 fd = Inr fv \<and>
            summary ch =
              [Lit ''Total: '', Fixed 1 (f_add (f_abs (np_sum mv)) (np_sum fv)),
               Lit (''k'' @ newline @ ''Male: ''), Fixed 1 (f_abs (np_sum mv)),
               Lit (''k'' @ newline @ ''Female: ''), Fixed 1 (np_sum fv),
               Lit ''million'']) \<and>
         (\<forall>ms fs. md = map Num ms \<longrightarrow> fd = map Num fs \<longrightarrow>
            summary ch =
              [Lit ''Total: '', Fixed 1 (Some (\<bar>sum_list ms\<bar> / 1000 + sum_list fs / 1000)),
               Lit (''k'' @ newline @ ''Male: ''), Fixed 1 (Some (\<bar>sum_list ms\<bar> / 1000)),
               Lit (''k'' @ newline @ ''Female: ''), Fixed 1 (Some (sum_list fs / 1000)),
               Lit ''million''])"
proof -
  from render_steps [OF assms] obtain mv fv where
    mv: "mapE neg_div_1000 md = Inr mv" and fv: "mapE div_1000 fd = Inr fv" and
    sm: "summary ch =
              [Lit ''Total: '', Fixed 1 (f_add (f_abs (np_sum mv)) (np_sum fv)),
               Lit (''k'' @ newline @ ''Male: ''), Fixed 1 (f_abs (np_sum mv)),
               Lit (''k'' @ newline @ ''Female: ''), Fixed 1 (np_sum fv),
               Lit ''million'']"
    by blast
  have numeric: "summary ch =
              [Lit ''Total: '', Fixed 1 (Some (\<bar>sum_list ms\<bar> / 1000 + sum_list fs / 1000)),
               Lit (''k'' @ newline @ ''Male: ''), Fixed 1 (Some (\<bar>sum_list ms\<bar> / 1000)),
               Lit (''k'' @ newline @ ''Female: ''), Fixed 1 (Some (sum_list fs / 1000)),
               Lit ''million'']"
    if md: "md = map Num ms" and fd: "fd = map Num fs" for ms fs
  proof -
    from mv md have mv': "mv = map (\<lambda>r. Some (- r / 1000)) ms"
      by (simp add: mapE_neg_div_Num)
    from fv fd have fv': "fv = map (\<lambda>r. Some (r / 1000)) fs"
      by (simp add: mapE_div_Num)
    have "np_sum mv = Some (- sum_list ms / 1000)"
      unfolding mv' np_sum_Some sum_list_neg_div ..
    then have m: "f_abs (np_sum mv) = Some (\<bar>sum_list ms\<bar> / 1000)"
      by (simp add: f_abs_def)
    have f: "np_sum fv = Some (sum_list fs / 1000)"
      unfolding fv' np_sum_Some sum_list_div ..
    show ?thesis
      by (simp add: sm m f)
  qed
  from mv fv sm numeric show ?thesis by blast
qed

theorem summary_units_witness:
  "\<exists>ch. create_population_pyramid [Num 10, Num 20] [Num 5, Num 25] [''0-4'', ''5-9'']
           (Text ''B'') (Num 2021) True = Inr ch \<and>
        summary ch =
          [Lit ''Total: '', Fixed 1 (Some (3 / 50)),
           Lit (''k'' @ newline @ ''Male: ''), Fixed 1 (Some (3 / 100)),
           Lit (''k'' @ newline @ ''Female: ''), Fixed 1 (Some (3 / 100)),
           Lit ''million'']"
proof -
  obtain ch where ch: "create_population_pyramid [Num 10, Num 20] [Num 5, Num 25]
      [''0-4'', ''5-9''] (Text ''B'') (Num 2021) True = Inr ch"
    by (simp add: create_population_pyramid_def Let_def barh_def np_min_def np_max_def
        np_sum_def f_abs_def f_neg_def f_mul_def set_xlim_def bar_label_at_def)
  have "summary ch =
         [Lit ''Total: '', Fixed 1 (Some (\<bar>sum_list [10, 20 :: real]\<bar> / 1000 + sum_list [5, 25 :: real] / 1000)),
          Lit (''k'' @ newline @ ''Male: ''), Fixed 1 (Some (\<bar>sum_list [10, 20 :: real]\<bar> / 1000)),
          Lit (''k'' @ newline @ ''Female: ''), Fixed 1 (Some (sum_list [5, 25 :: real] / 1000)),
          Lit ''million'']"
    using summary_units [OF ch, THEN conjunct2, rule_format, of "[10, 20]" "[5, 25]"]
    by simp
  then have "summary ch =
          [Lit ''Total: '', Fixed 1 (Some (3 / 50)),
           Lit (''k'' @ newline @ ''Male: ''), Fixed 1 (Some (3 / 100)),
           Lit (''k'' @ newline @ ''Female: ''), Fixed 1 (Some (3 / 100)),
           Lit ''million'']"
    by simp
  with ch show ?thesis by blast
qed



section \<open>Properties of the table formatter\<close>


lemma coerce_missing: "fillna 0 (to_numeric spell Missing) = 0"
  by simp

lemma coerce_text: "spell s = None \<Longrightarrow> fillna 0 (to_numeric spell (Text s)) = 0"
  by simp




section \<open>Properties of the keyspace intersection\<close>





















lemma example_columns:
  "get_column male_example REGION = Inr [Text ''B'', Text ''A'', Text ''C'']"
  "get_column female_example REGION = Inr [Text ''C'', Text ''B'', Text ''D'', Text ''B'']"
  "get_column male_example YEAR = Inr [Num 2021, Num 2020, Num 2020]"
  "get_column female_example YEAR = Inr [Num 2021, Num 2021, Num 2020, Num 2019]"
  by (simp_all add: get_column_def positions_def male_example_def female_example_def
      REGION_def YEAR_def cell_at_def)

lemma example_common:
  "common_countries male_example female_example = Inr [Text ''B'', Text ''C'']"
  "common_years male_example female_example = Inr [Num 2020, Num 2021]"
  by (simp_all add: common_countries_def common_years_def example_columns common_def)


section \<open>Properties of the upload step\<close>

text \<open>A file that cannot be read leaves the session as it was, the report apart.\<close>

lemma upload_unreadable:
  assumes "male_df st = None \<or> female_df st = None"
  shows "process_upload (Some Unreadable) (Some ff) st = report (Error_loading ReadError) st"
    and "load_population_data mf 16 = Inr (mdf, mac) \<Longrightarrow>
         process_upload (Some mf) (Some Unreadable) st = report (Error_loading ReadError) st"
  using assms by (auto simp: process_upload_def load_population_data_def)

text \<open>
  When both files load and an identifying column cannot be read or the common keys cannot
  be sorted, the error is reported on top of a session that already holds both tables and
  the labels.
\<close>

lemma upload_failure_after_store:
  assumes "male_df st = None \<or> female_df st = None"
    and "load_population_data mf 16 = Inr (mdf, mac)"
    and "load_population_data ff 16 = Inr (fdf, fac)"
    and "common_countries mdf fdf = Inl e"
  shows "process_upload (Some mf) (Some ff) st =
           report (Error_loading e)
             (st\<lparr>male_df := Some mdf, female_df := Some fdf, age_cols := Some mac\<rparr>)"
  using assms by (auto simp: process_upload_def Let_def)

text \<open>
  C8. The claim: when a load fails because a file is unreadable or an identifying
  column is missing, the error is reported and no partly loaded state becomes visible
  downstream. For a male file without the country column the \<open>KeyError\<close> is reported,
  but the two tables and the age-band labels were stored before the column was read:
  they stay in the session, and the guard of the configuration and generation sections is
  open.
\<close>

theorem upload_missing_column_publishes:
  "process_upload
     (Some (Frame \<lparr>columns = [''Year'', ''0-4''], rows = [[Num 2020, Num 5]]\<rparr>))
     (Some (Frame \<lparr>columns = [REGION, ''Year'', ''0-4''],
                   rows = [[Text ''A'', Num 2020, Num 7]]\<rparr>))
     initial_session
   = initial_session
       \<lparr>male_df := Some \<lparr>columns = [''Year'', ''0-4''], rows = [[Num 2020, Num 5]]\<rparr>,
        female_df := Some \<lparr>columns = [REGION, ''Year'', ''0-4''],
                           rows = [[Text ''A'', Num 2020, Num 7]]\<rparr>,
        age_cols := Some [''0-4''],
        messages := [Error_loading (KeyError REGION)]\<rparr> \<and>
   configuration_shown
     (process_upload
        (Some (Frame \<lparr>columns = [''Year'', ''0-4''], rows = [[Num 2020, Num 5]]\<rparr>))
        (Some (Frame \<lparr>columns = [REGION, ''Year'', ''0-4''],
                      rows = [[Text ''A'', Num 2020, Num 7]]\<rparr>))
        initial_session)"
  by (simp add: process_upload_def load_population_data_def Let_def strip_def is_space_def
      is_age_col_def isdigit_def is_digit_def startswith_def initial_session_def
      common_countries_def get_column_def positions_def REGION_def report_def
      configuration_shown_def)

section \<open>Properties of the generation loop\<close>

lemma process_selection_reads:
  assumes "process_selection sp sv st s = Inr t"
  shows "male_df t = male_df st" "female_df t = female_df st" "age_cols t = age_cols st"
    and "set (messages st) \<subseteq> set (messages t)"
  using assms
  unfolding process_selection_def Let_def report_def
  by (auto split: sum.splits option.splits if_splits)

lemma generate_loop_reads:
  "male_df (fst (generate_loop sp sv st ss)) = male_df st \<and>
   female_df (fst (generate_loop sp sv st ss)) = female_df st \<and>
   age_cols (fst (generate_loop sp sv st ss)) = age_cols st \<and>
   set (messages st) \<subseteq> set (messages (fst (generate_loop sp sv st ss)))"
proof (induction ss arbitrary: st)
  case Nil
  show ?case by simp
next
  case (Cons s ss)
  show ?case
  proof (cases "process_selection sp sv st s")
    case (Inl e)
    then show ?thesis by simp
  next
    case (Inr t)
    from process_selection_reads [OF Inr] Cons.IH [of t] Inr show ?thesis by auto
  qed
qed

lemma generate_loop_append:
  "generate_loop sp sv st (xs @ ys) =
     (case generate_loop sp sv st xs of
        (t, None) \<Rightarrow> generate_loop sp sv t ys
      | (t, Some e) \<Rightarrow> (t, Some e))"
  by (induction xs arbitrary: st) (auto split: sum.splits)

lemma process_selection_same_data:
  assumes "same_data st st'"
  shows "(\<exists>e. process_selection sp sv st s = Inl e \<and> process_selection sp sv st' s = Inl e) \<or>
         (\<exists>t t'. process_selection sp sv st s = Inr t \<and> process_selection sp sv st' s = Inr t' \<and>
                  same_data t t')"
  using assms
  unfolding process_selection_def Let_def report_def same_data_def
  by (auto split: sum.splits option.splits)

lemma generate_loop_same_data:
  assumes "same_data st st'"
  shows "snd (generate_loop sp sv st ss) = snd (generate_loop sp sv st' ss) \<and>
         same_data (fst (generate_loop sp sv st ss)) (fst (generate_loop sp sv st' ss))"
  using assms
proof (induction ss arbitrary: st st')
  case Nil
  then show ?case by simp
next
  case (Cons s ss)
  from process_selection_same_data [OF Cons.prems, of sp sv s]
  show ?case
  proof (elim disjE exE conjE)
    fix e
    assume "process_selection sp sv st s = Inl e" "process_selection sp sv st' s = Inl e"
    with Cons.prems show ?thesis by simp
  next
    fix t t'
    assume "process_selection sp sv st s = Inr t" "process_selection sp sv st' s = Inr t'"
      and "same_data t t'"
    with Cons.IH [of t t'] show ?thesis by simp
  qed
qed

lemma process_selection_not_found:
  assumes "male_df st = Some mdf" and "female_df st = Some fdf"
    and "select_rows mdf c y = Inr mr" and "select_rows fdf c y = Inr fr"
    and "mr = [] \<or> fr = []"
  shows "process_selection sp sv st (c, y) = Inr (report (Warning_no_data c y) st)"
  using assms unfolding process_selection_def Let_def by auto

text \<open>
  C4. Take a session holding both tables and a selection that both tables can be asked
  for (each has its identifying columns) and that matches no row of the male table or no
  row of the female table. Processing it raises nothing, adds no result and reports the
  warning for it. In a batch that contains it, every other selection is processed exactly
  as in the batch without it: the same results are generated and the same exception, if
  any, ends the loop; and unless the loop has ended before reaching it, its warning is
  among the reports.
\<close>

theorem missing_selection_skipped:
  assumes "male_df st = Some mdf" and "female_df st = Some fdf"
    and "select_rows mdf c y = Inr mr" and "select_rows fdf c y = Inr fr"
    and "mr = [] \<or> fr = []"
  shows "process_selection sp sv st (c, y) = Inr (report (Warning_no_data c y) st) \<and>
         snd (generate_loop sp sv st (pre @ (c, y) # post)) =
           snd (generate_loop sp sv st (pre @ post)) \<and>
         generated_pyramids (fst (generate_loop sp sv st (pre @ (c, y) # post))) =
           generated_pyramids (fst (generate_loop sp sv st (pre @ post))) \<and>
         (snd (generate_loop sp sv st pre) = None \<longrightarrow>
            Warning_no_data c y
              \<in> set (messages (fst (generate_loop sp sv st (pre @ (c, y) # post)))))"
proof -
  let ?w = "Warning_no_data c y"
  have one: "process_selection sp sv st (c, y) = Inr (report ?w st)"
    using assms by (rule process_selection_not_found)
  obtain t e where loop: "generate_loop sp sv st pre = (t, e)"
    by (cases "generate_loop sp sv st pre") auto
  have batch: "snd (generate_loop sp sv st (pre @ (c, y) # post)) =
           snd (generate_loop sp sv st (pre @ post)) \<and>
         generated_pyramids (fst (generate_loop sp sv st (pre @ (c, y) # post))) =
           generated_pyramids (fst (generate_loop sp sv st (pre @ post))) \<and>
         (e = None \<longrightarrow>
            ?w \<in> set (messages (fst (generate_loop sp sv st (pre @ (c, y) # post)))))"
  proof (cases e)
    case (Some err)
    with loop show ?thesis by (simp add: generate_loop_append)
  next
    case None
    from generate_loop_reads [of sp sv st pre] loop assms(1,2)
    have t: "male_df t = Some mdf" "female_df t = Some fdf" by auto
    have step: "process_selection sp sv t (c, y) = Inr (report ?w t)"
      using t assms(3,4,5) by (rule process_selection_not_found)
    have with_it: "generate_loop sp sv st (pre @ (c, y) # post) =
        generate_loop sp sv (report ?w t) post"
      using loop None step by (simp add: generate_loop_append)
    have without: "generate_loop sp sv st (pre @ post) = generate_loop sp sv t post"
      using loop None by (simp add: generate_loop_append)
    have "same_data t (report ?w t)"
      by (simp add: same_data_def report_def)
    from generate_loop_same_data [OF this, of sp sv post]
    have rel: "snd (generate_loop sp sv t post) = snd (generate_loop sp sv (report ?w t) post)"
      "generated_pyramids (fst (generate_loop sp sv (report ?w t) post)) =
       generated_pyramids (fst (generate_loop sp sv t post))"
      by (simp_all add: same_data_def)
    have "?w \<in> set (messages (report ?w t))"
      by (simp add: report_def)
    with generate_loop_reads [of sp sv "report ?w t" post]
    have "?w \<in> set (messages (fst (generate_loop sp sv (report ?w t) post)))"
      by blast
    with rel show ?thesis by (simp add: with_it without)
  qed
  from one batch loop show ?thesis by simp
qed

lemma example_loads:
  "load_population_data (Frame male_example) 16 = Inr (male_example, [''0-4'', ''5-9''])"
  "load_population_data (Frame female_example) 16
     = Inr (female_example, [''0-4'', ''5-9'', ''10-14''])"
  by (simp_all add: load_population_data_def Let_def male_example_def female_example_def
      REGION_def YEAR_def strip_def is_space_def is_age_col_def isdigit_def is_digit_def
      startswith_def)

lemma loaded_example_eval:
  "loaded_example =
     \<lparr>male_df = Some male_example, female_df = Some female_example,
      age_cols = Some [''0-4'', ''5-9''],
      countries = [Text ''B'', Text ''C''], years = [Num 2020, Num 2021],
      generated_pyramids = [], pyramid_selections = [],
      messages = [Success_loaded 2 2]\<rparr>"
  by (simp add: loaded_example_def process_upload_def example_loads example_common report_def
      initial_session_def)

lemma example_rows:
  "select_rows male_example (Text ''C'') (Num 2020) = Inr [[Text ''C'', Num 2020, Num 3, Num 4]]"
  "select_rows female_example (Text ''C'') (Num 2020) = Inr []"
  "select_rows male_example (Text ''B'') (Num 2021) = Inr [[Text ''B'', Num 2021, Num 10, Num 20]]"
  "select_rows female_example (Text ''B'') (Num 2021)
     = Inr [[Text ''B'', Num 2021, Num 5, Num 25, Num 30]]"
  by (simp_all add: select_rows_def example_columns)
     (simp_all add: male_example_def female_example_def)

lemma example_data:
  "select_labels male_example [Text ''B'', Num 2021, Num 10, Num 20] [''0-4'', ''5-9'']
     = Inr [Num 10, Num 20]"
  "select_labels female_example [Text ''B'', Num 2021, Num 5, Num 25, Num 30] [''0-4'', ''5-9'']
     = Inr [Num 5, Num 25]"
  by (simp_all add: select_labels_def positions_def male_example_def female_example_def
      REGION_def YEAR_def cell_at_def)

lemma example_chart:
  "\<exists>ch. create_population_pyramid [Num 10, Num 20] [Num 5, Num 25] [''0-4'', ''5-9'']
          (Text ''B'') (Num 2021) True = Inr ch"
  by (simp add: create_population_pyramid_def Let_def barh_def np_min_def np_max_def
      np_sum_def f_abs_def f_neg_def f_mul_def set_xlim_def bar_label_at_def)

lemma example_table:
  "\<exists>t. create_data_table no_number [Num 10, Num 20] [Num 5, Num 25] [''0-4'', ''5-9''] = Inr t"
  by (simp add: create_data_table_def np_add_def)

lemma example_selection:
  assumes "male_df st = Some male_example" and "female_df st = Some female_example"
    and "age_cols st = Some [''0-4'', ''5-9'']"
  shows "\<exists>p. process_selection no_number True st (Text ''B'', Num 2021)
              = Inr (st\<lparr>generated_pyramids := generated_pyramids st @ [p]\<rparr>)"
proof -
  from example_chart obtain ch where
    ch: "create_population_pyramid [Num 10, Num 20] [Num 5, Num 25] [''0-4'', ''5-9'']
          (Text ''B'') (Num 2021) True = Inr ch"
    by blast
  from example_table obtain t where
    t: "create_data_table no_number [Num 10, Num 20] [Num 5, Num 25] [''0-4'', ''5-9''] = Inr t"
    by blast
  have "process_selection no_number True st (Text ''B'', Num 2021)
          = Inr (st\<lparr>generated_pyramids := generated_pyramids st @
                  [\<lparr>fig = ch, country = Text ''B'', year = Num 2021, table = t\<rparr>]\<rparr>)"
    unfolding process_selection_def Let_def
    by (simp add: assms example_rows example_data ch t)
  then show ?thesis by blast
qed

theorem missing_selection_skipped_witness:
  "process_selection no_number True loaded_example (Text ''C'', Num 2020)
     = Inr (report (Warning_no_data (Text ''C'') (Num 2020)) loaded_example) \<and>
   snd (generate_loop no_number True loaded_example
          [(Text ''B'', Num 2021), (Text ''C'', Num 2020), (Text ''B'', Num 2021)]) = None \<and>
   length (generated_pyramids (fst (generate_loop no_number True loaded_example
          [(Text ''B'', Num 2021), (Text ''C'', Num 2020), (Text ''B'', Num 2021)]))) = 2 \<and>
   Warning_no_data (Text ''C'') (Num 2020)
     \<in> set (messages (fst (generate_loop no_number True loaded_example
          [(Text ''B'', Num 2021), (Text ''C'', Num 2020), (Text ''B'', Num 2021)])))"
proof -
  have st: "male_df loaded_example = Some male_example"
    "female_df loaded_example = Some female_example"
    "age_cols loaded_example = Some [''0-4'', ''5-9'']"
    "generated_pyramids loaded_example = []"
    by (simp_all add: loaded_example_eval)
  from example_selection [OF st(1,2,3)] obtain p1 where
    p1: "process_selection no_number True loaded_example (Text ''B'', Num 2021)
           = Inr (loaded_example\<lparr>generated_pyramids := generated_pyramids loaded_example @ [p1]\<rparr>)"
    by blast
  let ?s1 = "loaded_example\<lparr>generated_pyramids := generated_pyramids loaded_example @ [p1]\<rparr>"
  have "\<exists>p. process_selection no_number True ?s1 (Text ''B'', Num 2021)
              = Inr (?s1\<lparr>generated_pyramids := generated_pyramids ?s1 @ [p]\<rparr>)"
    by (rule example_selection) (simp_all add: st)
  then obtain p2 where
    p2: "process_selection no_number True ?s1 (Text ''B'', Num 2021)
           = Inr (?s1\<lparr>generated_pyramids := generated_pyramids ?s1 @ [p2]\<rparr>)"
    by blast
  have pre: "generate_loop no_number True loaded_example [(Text ''B'', Num 2021)] = (?s1, None)"
    by (simp add: p1)
  have without: "generate_loop no_number True loaded_example
      ([(Text ''B'', Num 2021)] @ [(Text ''B'', Num 2021)])
        = (?s1\<lparr>generated_pyramids := generated_pyramids ?s1 @ [p2]\<rparr>, None)"
    by (simp add: p1 p2)
  note inst = missing_selection_skipped [OF st(1,2) example_rows(1,2), of no_number True
      "[(Text ''B'', Num 2021)]" "[(Text ''B'', Num 2021)]"]
  have inst': "process_selection no_number True loaded_example (Text ''C'', Num 2020)
       = Inr (report (Warning_no_data (Text ''C'') (Num 2020)) loaded_example) \<and>
     snd (generate_loop no_number True loaded_example
            ([(Text ''B'', Num 2021)] @ (Text ''C'', Num 2020) # [(Text ''B'', Num 2021)])) =
       snd (generate_loop no_number True loaded_example
            ([(Text ''B'', Num 2021)] @ [(Text ''B'', Num 2021)])) \<and>
     generated_pyramids (fst (generate_loop no_number True loaded_example
            ([(Text ''B'', Num 2021)] @ (Text ''C'', Num 2020) # [(Text ''B'', Num 2021)]))) =
       generated_pyramids (fst (generate_loop no_number True loaded_example
            ([(Text ''B'', Num 2021)] @ [(Text ''B'', Num 2021)]))) \<and>
     (snd (generate_loop no_number True loaded_example [(Text ''B'', Num 2021)]) = None \<longrightarrow>
        Warning_no_data (Text ''C'') (Num 2020)
          \<in> set (messages (fst (generate_loop no_number True loaded_example
            ([(Text ''B'', Num 2021)] @ (Text ''C'', Num 2020) # [(Text ''B'', Num 2021)])))))"
    by (rule inst) simp
  have app: "[(Text ''B'', Num 2021)] @ (Text ''C'', Num 2020) # [(Text ''B'', Num 2021)]
      = [(Text ''B'', Num 2021), (Text ''C'', Num 2020), (Text ''B'', Num 2021)]"
    by simp
  from inst' show ?thesis
    unfolding app without pre by (simp add: st)
qed

section \<open>No age bands\<close>

lemma bandless_session_eval:
  "bandless_session =
     \<lparr>male_df = Some bandless_example, female_df = Some bandless_example,
      age_cols = Some [],
      countries = [Text ''A''], years = [Num 2020],
      generated_pyramids = [], pyramid_selections = [(Text ''A'', Num 2020)],
      messages = [Success_loaded 1 1]\<rparr>"
proof -
  have ld: "load_population_data (Frame bandless_example) 16 = Inr (bandless_example, [])"
    by (simp add: load_population_data_def Let_def bandless_example_def REGION_def YEAR_def
        strip_def is_space_def is_age_col_def isdigit_def is_digit_def startswith_def)
  have cols: "get_column bandless_example REGION = Inr [Text ''A'']"
    "get_column bandless_example YEAR = Inr [Num 2020]"
    by (simp_all add: get_column_def positions_def bandless_example_def REGION_def YEAR_def
        cell_at_def)
  show ?thesis
    by (simp add: bandless_session_def process_upload_def ld common_countries_def
        common_years_def cols common_def report_def initial_session_def)
qed

lemma bandless_row:
  "select_rows bandless_example (Text ''A'') (Num 2020) = Inr [[Text ''A'', Num 2020]]"
  "select_labels bandless_example [Text ''A'', Num 2020] [] = Inr []"
proof -
  have cols: "get_column bandless_example REGION = Inr [Text ''A'']"
    "get_column bandless_example YEAR = Inr [Num 2020]"
    by (simp_all add: get_column_def positions_def bandless_example_def REGION_def YEAR_def
        cell_at_def)
  show "select_rows bandless_example (Text ''A'') (Num 2020) = Inr [[Text ''A'', Num 2020]]"
    by (simp add: select_rows_def cols) (simp add: bandless_example_def)
  show "select_labels bandless_example [Text ''A'', Num 2020] [] = Inr []"
    by (simp add: select_labels_def)
qed

text \<open>
  C9. The claim: with no age bands (empty labels and empty count vectors) the renderer
  and the formatter reject the input or yield an empty chart and an empty table, and
  never crash. The formatter yields the empty table. The renderer draws no bar and then
  takes the minimum of the empty male vector, which raises \<open>ValueError\<close>. No check
  refuses the empty input and nothing handles the exception: files without an age-band
  column load with an empty label list, and generating a pyramid for one of their rows
  ends the loop with the exception and without a result.
\<close>

theorem empty_age_bands:
  "create_population_pyramid [] [] [] c y i = Inl ValueError \<and>
   create_data_table spell [] [] [] =
     Inr \<lparr>age_group = [], male = [], female = [], total = []\<rparr> \<and>
   age_cols bandless_session = Some [] \<and>
   generate_pyramids spell sv bandless_session = (bandless_session, Some ValueError)"
proof (intro conjI)
  show r: "create_population_pyramid [] [] [] c y i = Inl ValueError" for c y i
    by (simp add: create_population_pyramid_def barh_def np_min_def)
  show "create_data_table spell [] [] [] =
     Inr \<lparr>age_group = [], male = [], female = [], total = []\<rparr>"
    by (simp add: create_data_table_def np_add_def)
  show "age_cols bandless_session = Some []"
    by (simp add: bandless_session_eval)
  have "process_selection spell sv bandless_session (Text ''A'', Num 2020) = Inl ValueError"
    unfolding process_selection_def Let_def
    by (simp add: bandless_session_eval bandless_row r)
  moreover have "bandless_session\<lparr>generated_pyramids := []\<rparr> = bandless_session"
    by (simp add: bandless_session_eval)
  moreover have "pyramid_selections bandless_session = [(Text ''A'', Num 2020)]"
    by (simp add: bandless_session_eval)
  ultimately show "generate_pyramids spell sv bandless_session
      = (bandless_session, Some ValueError)"
    by (simp add: generate_pyramids_def)
qed

section \<open>Where the age-band labels come from\<close>






end
